theory Spec2Isabelle
  imports Main "HOL-Library.Word"
begin

section \<open>The SeaTalk hardware-signal layer for Linux GPIO pins\<close>

text \<open>
  A shallow embedding of \<^verbatim>\<open>seatalk_hardware_layer.c\<close>. The file keeps three pieces of
  static state (the flag \<^verbatim>\<open>debouncing\<close> and the two high-resolution timers
  \<^verbatim>\<open>hrtimer_rxd\<close> and \<^verbatim>\<open>hrtimer_txd\<close>) and talks to two neighbours:
  \<^item> the Linux kernel (GPIO pins, hrtimers, interrupt masking, the log);
  \<^item> the transport layer of the base SeaTalk library
    (\<^verbatim>\<open>seatalk_initiate_receive_character\<close>, \<^verbatim>\<open>seatalk_receive_bit\<close>,
    \<^verbatim>\<open>seatalk_transmit_bit\<close>), which lives in another repository.

  Every call that leaves the file is appended to a trace, in program order. The kernel
  calls are also interpreted over an explicit state (timers, pins), following the
  kernel's documented behaviour. The transport layer is not interpreted: the value each
  of its calls returns is an argument of the function making the call.

  A C \<^verbatim>\<open>int\<close> is a 32-bit word; \<^verbatim>\<open>ktime_t\<close> (a signed 64-bit count of nanoseconds) is
  an \<^typ>\<open>int\<close>, since no run of the driver gets near \<open>2^63\<close> nanoseconds.
\<close>

subsection \<open>Constants of the file\<close>

type_synonym c_int = "32 word"

type_synonym ktime = int

definition GPIO_RXD_PIN :: nat where
  "GPIO_RXD_PIN = 23"

definition GPIO_TXD_PIN :: nat where
  "GPIO_TXD_PIN = 24"

definition GPIO_RX_LOW_VALUE :: c_int where
  "GPIO_RX_LOW_VALUE = 1"

definition GPIO_RX_HIGH_VALUE :: c_int where
  "GPIO_RX_HIGH_VALUE = 0"

definition GPIO_TX_LOW_VALUE :: c_int where
  "GPIO_TX_LOW_VALUE = 1"

definition GPIO_TX_HIGH_VALUE :: c_int where
  "GPIO_TX_HIGH_VALUE = 0"

definition SEATALK_PORT :: c_int where
  "SEATALK_PORT = 0"

definition BIT_INTERVAL :: c_int where
  "BIT_INTERVAL = 208333"

text \<open>
  \<^verbatim>\<open>#define START_BIT_DELAY (BIT_INTERVAL / 4)\<close>. Both operands are positive, where
  the division of C and the (unsigned) division of words agree.
\<close>

definition START_BIT_DELAY :: c_int where
  "START_BIT_DELAY = BIT_INTERVAL div 4"

definition DEBOUNCE_NANOS :: c_int where
  "DEBOUNCE_NANOS = 60000"

subsection \<open>The kernel's side: time, timers, pins\<close>

text \<open>
  \<^verbatim>\<open>ktime_set(secs, nsecs)\<close> is \<^verbatim>\<open>secs * NSEC_PER_SEC + (s64)nsecs\<close>, saturating at
  \<^verbatim>\<open>KTIME_MAX\<close>. Its second parameter is an \<^verbatim>\<open>unsigned long\<close>; the file passes an
  \<^verbatim>\<open>int\<close>, which a 64-bit kernel sign-extends, so the nanoseconds that arrive are the
  signed reading of the word. (On a 32-bit kernel they are the unsigned reading; the two
  agree on every value from 0 to \<open>2^31 - 1\<close>.)
\<close>

definition NSEC_PER_SEC :: int where
  "NSEC_PER_SEC = 1000000000"

definition KTIME_MAX :: ktime where
  "KTIME_MAX = 2 ^ 63 - 1"

definition ktime_set :: "int \<Rightarrow> c_int \<Rightarrow> ktime" where
  "ktime_set secs nsecs =
     (if secs \<ge> KTIME_MAX div NSEC_PER_SEC then KTIME_MAX
      else secs * NSEC_PER_SEC + sint nsecs)"

datatype timer_fn = Receive_bit_fn | Transmit_bit_fn

text \<open>
  A \<^verbatim>\<open>struct hrtimer\<close>, as far as the file uses it: whether the timer is queued to
  fire, the absolute time at which it expires, and its callback.
\<close>

record hrtimer =
  enqueued :: bool
  expires :: ktime
  callback :: "timer_fn option"

datatype hrtimer_restart = HRTIMER_NORESTART | HRTIMER_RESTART

datatype irqreturn = IRQ_NONE | IRQ_HANDLED

datatype timer_id = TIMER_RXD | TIMER_TXD

text \<open>
  The calls that leave the file. A \<^verbatim>\<open>pr_info\<close> is recorded by its format string,
  without the trailing newline and the arguments; a timer call by the timer and the
  time passed to it; a call into the transport layer by its port argument.
\<close>

datatype event =
    Pr_info string
  | Local_irq_save
  | Local_irq_restore
  | Seatalk_initiate_receive_character c_int
  | Seatalk_receive_bit c_int
  | Seatalk_transmit_bit c_int
  | Hrtimer_init timer_id
  | Hrtimer_start timer_id ktime
  | Hrtimer_forward_now timer_id ktime
  | Hrtimer_cancel timer_id
  | Gpio_request nat
  | Gpio_free nat
  | Gpio_direction_input nat
  | Gpio_direction_output nat c_int
  | Gpio_set_value nat c_int

record hw_state =
  debouncing :: c_int
  hrtimer_rxd :: hrtimer
  hrtimer_txd :: hrtimer
  gpio_requested :: "nat set"
  gpio_level :: "nat \<Rightarrow> c_int"
  trace :: "event list"

definition emit :: "event \<Rightarrow> hw_state \<Rightarrow> hw_state" where
  "emit e s = s\<lparr>trace := trace s @ [e]\<rparr>"

fun timer_of :: "timer_id \<Rightarrow> hw_state \<Rightarrow> hrtimer" where
  "timer_of TIMER_RXD s = hrtimer_rxd s"
| "timer_of TIMER_TXD s = hrtimer_txd s"

fun timer_upd :: "timer_id \<Rightarrow> (hrtimer \<Rightarrow> hrtimer) \<Rightarrow> hw_state \<Rightarrow> hw_state" where
  "timer_upd TIMER_RXD f s = s\<lparr>hrtimer_rxd := f (hrtimer_rxd s)\<rparr>"
| "timer_upd TIMER_TXD f s = s\<lparr>hrtimer_txd := f (hrtimer_txd s)\<rparr>"

text \<open>
  \<^verbatim>\<open>hrtimer_init\<close> clears the timer. \<^verbatim>\<open>hrtimer_start(t, tim, HRTIMER_MODE_REL)\<close>
  (re)queues it to expire at \<^verbatim>\<open>ktime_add_safe(tim, now)\<close>: \<open>tim\<close> after the current
  time, or \<^verbatim>\<open>KTIME_MAX\<close> when the sum is negative or below one of its operands. The
  clock is never negative and stays far from \<open>2^63\<close>, so that is the case exactly when
  \<open>tim\<close> is negative: such a timer is parked, not made due at once.
  \<^verbatim>\<open>hrtimer_cancel\<close> takes the timer off the queue.
\<close>

definition hrtimer_init :: "timer_id \<Rightarrow> hw_state \<Rightarrow> hw_state" where
  "hrtimer_init tid s =
     emit (Hrtimer_init tid)
       (timer_upd tid (\<lambda>_. \<lparr>enqueued = False, expires = 0, callback = None\<rparr>) s)"

definition hrtimer_start :: "timer_id \<Rightarrow> ktime \<Rightarrow> ktime \<Rightarrow> hw_state \<Rightarrow> hw_state" where
  "hrtimer_start tid now tim s =
     emit (Hrtimer_start tid tim)
       (timer_upd tid
          (\<lambda>t. t\<lparr>enqueued := True,
                 expires := (if tim < 0 then KTIME_MAX else now + tim)\<rparr>) s)"

definition hrtimer_cancel :: "timer_id \<Rightarrow> hw_state \<Rightarrow> hw_state" where
  "hrtimer_cancel tid s =
     emit (Hrtimer_cancel tid) (timer_upd tid (\<lambda>t. t\<lparr>enqueued := False\<rparr>) s)"

text \<open>
  \<^verbatim>\<open>hrtimer_forward(timer, now, interval)\<close> of \<^verbatim>\<open>kernel/time/hrtimer.c\<close>: "forward the
  timer expiry so it will expire in the future". Its body is
  \<^verbatim>\<open>
  delta = ktime_sub(now, hrtimer_get_expires(timer));
  if (delta < 0) return 0;
  if (WARN_ON(timer->state & HRTIMER_STATE_ENQUEUED)) return 0;
  if (unlikely(delta >= interval)) {
      orun = ktime_divns(delta, incr);
      hrtimer_add_expires_ns(timer, incr * orun);
      if (hrtimer_get_expires_tv64(timer) > now) return orun;
  }
  hrtimer_add_expires(timer, interval);
  \<close>
  so a timer whose expiry already lies in the future is left as it is, and otherwise
  the expiry moves forward from its old value, not from \<open>now\<close>, by whole intervals.
  (The clamp of \<open>interval\<close> to the clock's resolution, 1 ns with high-resolution timers,
  is left out: both intervals of the file are far above it.)
\<close>

definition hrtimer_forward :: "hrtimer \<Rightarrow> ktime \<Rightarrow> ktime \<Rightarrow> hrtimer" where
  "hrtimer_forward t now interval =
     (let delta = now - expires t in
      if delta < 0 then t
      else if enqueued t then t
      else if delta \<ge> interval then
        (let orun = delta div interval;
             e1 = expires t + interval * orun in
         if e1 > now then t\<lparr>expires := e1\<rparr> else t\<lparr>expires := e1 + interval\<rparr>)
      else t\<lparr>expires := expires t + interval\<rparr>)"

definition hrtimer_forward_now :: "timer_id \<Rightarrow> ktime \<Rightarrow> ktime \<Rightarrow> hw_state \<Rightarrow> hw_state" where
  "hrtimer_forward_now tid now interval s =
     emit (Hrtimer_forward_now tid interval)
       (timer_upd tid (\<lambda>t. hrtimer_forward t now interval) s)"

text \<open>
  \<^verbatim>\<open>gpio_request\<close> answers 0 on success and a negative error number otherwise; the
  answer \<open>rc\<close> is an input. A pin that was granted stays reserved until \<^verbatim>\<open>gpio_free\<close>.
\<close>

definition gpio_request :: "nat \<Rightarrow> c_int \<Rightarrow> hw_state \<Rightarrow> hw_state" where
  "gpio_request pin rc s =
     (let s1 = emit (Gpio_request pin) s in
      if rc = 0 then s1\<lparr>gpio_requested := insert pin (gpio_requested s1)\<rparr> else s1)"

definition gpio_free :: "nat \<Rightarrow> hw_state \<Rightarrow> hw_state" where
  "gpio_free pin s =
     (let s1 = emit (Gpio_free pin) s in s1\<lparr>gpio_requested := gpio_requested s1 - {pin}\<rparr>)"

definition gpio_direction_input :: "nat \<Rightarrow> hw_state \<Rightarrow> hw_state" where
  "gpio_direction_input pin s = emit (Gpio_direction_input pin) s"

definition gpio_set_level :: "nat \<Rightarrow> c_int \<Rightarrow> hw_state \<Rightarrow> hw_state" where
  "gpio_set_level pin v s = s\<lparr>gpio_level := (gpio_level s)(pin := (if v = 0 then 0 else 1))\<rparr>"

definition gpio_direction_output :: "nat \<Rightarrow> c_int \<Rightarrow> hw_state \<Rightarrow> hw_state" where
  "gpio_direction_output pin v s = emit (Gpio_direction_output pin v) (gpio_set_level pin v s)"

definition gpio_set_value :: "nat \<Rightarrow> c_int \<Rightarrow> hw_state \<Rightarrow> hw_state" where
  "gpio_set_value pin v s = emit (Gpio_set_value pin v) (gpio_set_level pin v s)"

definition gpio_get_value :: "nat \<Rightarrow> hw_state \<Rightarrow> c_int" where
  "gpio_get_value pin s = gpio_level s pin"

subsection \<open>The functions of the file\<close>

text \<open>
  \<^verbatim>\<open>rxd_irq_handler\<close>: the rising-edge interrupt. \<open>now\<close> is the clock when it runs and
  \<open>initiate_rc\<close> what \<^verbatim>\<open>seatalk_initiate_receive_character\<close> returns if it is called.
  The parameters \<^verbatim>\<open>irq\<close>, \<^verbatim>\<open>dev_id\<close> and \<^verbatim>\<open>regs\<close> are not read by the body.
\<close>

definition rxd_irq_handler :: "ktime \<Rightarrow> c_int \<Rightarrow> hw_state \<Rightarrow> irqreturn \<times> hw_state" where
  "rxd_irq_handler now initiate_rc s =
     (let s1 = emit Local_irq_save s;
          s2 = (if debouncing s1 \<noteq> 0 then emit (Pr_info ''debouncing'') s1
                else
                  (let s3 = emit (Seatalk_initiate_receive_character SEATALK_PORT) s1 in
                   if initiate_rc \<noteq> 0
                   then hrtimer_start TIMER_RXD now
                          (ktime_set 0 (BIT_INTERVAL + START_BIT_DELAY)) s3
                   else s3));
          s4 = emit Local_irq_restore s2
      in (IRQ_HANDLED, s4))"

definition seatalk_get_hardware_bit_value :: "c_int \<Rightarrow> hw_state \<Rightarrow> c_int" where
  "seatalk_get_hardware_bit_value seatalk_port s =
     (if gpio_get_value GPIO_RXD_PIN s \<noteq> 0 then GPIO_RX_HIGH_VALUE else GPIO_RX_LOW_VALUE)"

definition seatalk_set_hardware_bit_value :: "c_int \<Rightarrow> c_int \<Rightarrow> hw_state \<Rightarrow> hw_state" where
  "seatalk_set_hardware_bit_value seatalk_port bit_value s =
     gpio_set_value GPIO_TXD_PIN (if bit_value = GPIO_TX_HIGH_VALUE then 1 else 0) s"

text \<open>
  \<^verbatim>\<open>receive_bit\<close>: the callback of \<^verbatim>\<open>hrtimer_rxd\<close>. \<open>receive_rc\<close> is what
  \<^verbatim>\<open>seatalk_receive_bit\<close> returns if it is called. The callback is taken to run in
  one instant \<open>now\<close>: both \<^verbatim>\<open>hrtimer_forward_now\<close> calls read the same clock.
\<close>

definition receive_bit :: "ktime \<Rightarrow> c_int \<Rightarrow> hw_state \<Rightarrow> hrtimer_restart \<times> hw_state" where
  "receive_bit now receive_rc s =
     (if debouncing s \<noteq> 0 then (HRTIMER_NORESTART, s\<lparr>debouncing := 0\<rparr>)
      else
        (let s1 = hrtimer_forward_now TIMER_RXD now (ktime_set 0 BIT_INTERVAL) s;
             s2 = emit (Seatalk_receive_bit SEATALK_PORT) s1 in
         if receive_rc \<noteq> 0 then (HRTIMER_RESTART, s2)
         else
           (let s3 = hrtimer_forward_now TIMER_RXD now (ktime_set 0 DEBOUNCE_NANOS) s2 in
            (HRTIMER_RESTART, s3\<lparr>debouncing := 1\<rparr>))))"

text \<open>
  \<^verbatim>\<open>transmit_bit\<close>: the callback of \<^verbatim>\<open>hrtimer_txd\<close>. \<open>transmit_rc\<close> is what
  \<^verbatim>\<open>seatalk_transmit_bit\<close> returns.
\<close>

definition transmit_bit :: "ktime \<Rightarrow> c_int \<Rightarrow> hw_state \<Rightarrow> hrtimer_restart \<times> hw_state" where
  "transmit_bit now transmit_rc s =
     (let s1 = hrtimer_forward_now TIMER_TXD now (ktime_set 0 BIT_INTERVAL) s;
          s2 = emit (Seatalk_transmit_bit SEATALK_PORT) s1 in
      if transmit_rc \<noteq> 0 then (HRTIMER_RESTART, s2) else (HRTIMER_NORESTART, s2))"

text \<open>
  \<^verbatim>\<open>BIT_INTERVAL * bit_delay\<close> is a product of two \<^verbatim>\<open>int\<close>s. The kernel is compiled
  with \<^verbatim>\<open>-fno-strict-overflow\<close>, so the product wraps around at 32 bits, as the
  product of words does.
\<close>

definition seatalk_initiate_hardware_transmitter ::
    "ktime \<Rightarrow> c_int \<Rightarrow> c_int \<Rightarrow> hw_state \<Rightarrow> hw_state" where
  "seatalk_initiate_hardware_transmitter now seatalk_port bit_delay s =
     (let s1 = hrtimer_cancel TIMER_TXD s in
      hrtimer_start TIMER_TXD now (ktime_set 0 (BIT_INTERVAL * bit_delay)) s1)"

text \<open>
  \<^verbatim>\<open>seatalk_init_hardware_signal\<close>. \<open>rxd_rc\<close> and \<open>txd_rc\<close> are the answers of the two
  \<^verbatim>\<open>gpio_request\<close> calls (the second is made only if the first succeeded). The
  assignments \<^verbatim>\<open>hrtimer_rxd.function = receive_bit\<close> and
  \<^verbatim>\<open>hrtimer_txd.function = transmit_bit\<close> set the callbacks.
\<close>

definition seatalk_init_hardware_signal :: "c_int \<Rightarrow> c_int \<Rightarrow> hw_state \<Rightarrow> c_int \<times> hw_state" where
  "seatalk_init_hardware_signal rxd_rc txd_rc s =
     (let s1 = gpio_request GPIO_RXD_PIN rxd_rc s in
      if rxd_rc \<noteq> 0
      then (- 1, emit (Pr_info ''Unable to request GPIO RxD pin %d'') s1)
      else
        (let s2 = gpio_direction_input GPIO_RXD_PIN s1;
             s3 = hrtimer_init TIMER_RXD s2;
             s4 = timer_upd TIMER_RXD (\<lambda>t. t\<lparr>callback := Some Receive_bit_fn\<rparr>) s3;
             s5 = gpio_request GPIO_TXD_PIN txd_rc s4 in
         if txd_rc \<noteq> 0
         then (- 1, gpio_free GPIO_RXD_PIN
                      (emit (Pr_info ''Unable to request GPIO TxD pin %d'') s5))
         else
           (let s6 = gpio_direction_output GPIO_TXD_PIN 1 s5;
                s7 = seatalk_set_hardware_bit_value SEATALK_PORT 1 s6;
                s8 = hrtimer_init TIMER_TXD s7;
                s9 = timer_upd TIMER_TXD (\<lambda>t. t\<lparr>callback := Some Transmit_bit_fn\<rparr>) s8
            in (0, s9))))"

subsection \<open>How the kernel drives the file\<close>

text \<open>
  The state before \<^verbatim>\<open>seatalk_init_hardware_signal\<close>: C's static storage, all zero
  (\<^verbatim>\<open>int debouncing = 0\<close>), no pin reserved, nothing traced.
\<close>

definition boot_state :: hw_state where
  "boot_state =
     \<lparr>debouncing = 0,
      hrtimer_rxd = \<lparr>enqueued = False, expires = 0, callback = None\<rparr>,
      hrtimer_txd = \<lparr>enqueued = False, expires = 0, callback = None\<rparr>,
      gpio_requested = {},
      gpio_level = (\<lambda>_. 0),
      trace = []\<rparr>"

text \<open>
  One expiry of a timer, as the kernel's \<^verbatim>\<open>__run_hrtimer\<close> handles it: a queued timer
  whose expiry has been reached is taken off the queue, its callback runs, and the timer
  is queued again (at the expiry the callback left) exactly when the callback returns
  \<^verbatim>\<open>HRTIMER_RESTART\<close>. \<open>rc\<close> is what the transport layer answers the callback. There is
  no expiry (\<open>None\<close>) of a timer that is not queued, not yet due, or has no callback.
\<close>

definition run_callback ::
    "timer_fn \<Rightarrow> ktime \<Rightarrow> c_int \<Rightarrow> hw_state \<Rightarrow> hrtimer_restart \<times> hw_state" where
  "run_callback f now rc s =
     (case f of Receive_bit_fn \<Rightarrow> receive_bit now rc s
              | Transmit_bit_fn \<Rightarrow> transmit_bit now rc s)"

definition run_hrtimer :: "timer_id \<Rightarrow> ktime \<Rightarrow> c_int \<Rightarrow> hw_state \<Rightarrow> hw_state option" where
  "run_hrtimer tid now rc s =
     (let t = timer_of tid s in
      if enqueued t \<and> expires t \<le> now then
        (case callback t of
           None \<Rightarrow> None
         | Some f \<Rightarrow>
             (let s1 = timer_upd tid (\<lambda>t. t\<lparr>enqueued := False\<rparr>) s;
                  (r, s2) = run_callback f now rc s1 in
              Some (if r = HRTIMER_RESTART
                    then timer_upd tid (\<lambda>t. t\<lparr>enqueued := True\<rparr>) s2
                    else s2)))
      else None)"

text \<open>The driver once both pins were granted: the state every run starts from.\<close>

definition ready_state :: hw_state where
  "ready_state = snd (seatalk_init_hardware_signal 0 0 boot_state)"







text \<open>
  A series of expiries of \<^verbatim>\<open>hrtimer_rxd\<close>: each element is how late the kernel runs
  the callback (0 is exactly on time) and the answer \<^verbatim>\<open>seatalk_receive_bit\<close> would
  give it.
\<close>

fun rxd_expiries :: "(ktime \<times> c_int) list \<Rightarrow> hw_state \<Rightarrow> hw_state option" where
  "rxd_expiries [] s = Some s"
| "rxd_expiries ((late, rc) # fs) s =
     (case run_hrtimer TIMER_RXD (expires (hrtimer_rxd s) + late) rc s of
        None \<Rightarrow> None
      | Some s' \<Rightarrow> rxd_expiries fs s')"

text \<open>The calls of \<^verbatim>\<open>seatalk_receive_bit\<close> in a trace, in order.\<close>

definition receive_bit_calls :: "event list \<Rightarrow> event list" where
  "receive_bit_calls tr = filter (\<lambda>e. e = Seatalk_receive_bit SEATALK_PORT) tr"

subsection \<open>The configuration surface as the specification words it\<close>

text \<open>
  The specification lists three options and derives the timing from them
  (\<open>BIT_PERIOD = 1e9 / bitRate\<close>, \<open>START_SAMPLE_OFFSET = BIT_PERIOD / 4\<close>, a debounce
  window of its own). The definitions below follow those words, to be compared with
  the constants of the file. \<open>logicInversion\<close> says whether the level translator
  inverts: with it, a high pin is logical 0.
\<close>

record config =
  bitRate :: nat
  logicInversion :: bool
  debounceWindowNanos :: int

definition spec_BIT_PERIOD :: "config \<Rightarrow> int" where
  "spec_BIT_PERIOD cfg = 1000000000 div int (bitRate cfg)"

definition spec_START_SAMPLE_OFFSET :: "config \<Rightarrow> int" where
  "spec_START_SAMPLE_OFFSET cfg = spec_BIT_PERIOD cfg div 4"

definition spec_DEBOUNCE_WINDOW :: "config \<Rightarrow> int" where
  "spec_DEBOUNCE_WINDOW cfg = debounceWindowNanos cfg"

definition spec_readBit :: "config \<Rightarrow> c_int \<Rightarrow> c_int" where
  "spec_readBit cfg level = (if (level \<noteq> 0) = logicInversion cfg then 0 else 1)"

definition spec_writeBit :: "config \<Rightarrow> c_int \<Rightarrow> c_int" where
  "spec_writeBit cfg v = (if (v \<noteq> 0) = logicInversion cfg then 0 else 1)"

definition default_config :: config where
  "default_config = \<lparr>bitRate = 4800, logicInversion = True, debounceWindowNanos = 60000\<rparr>"

subsection \<open>Scenarios\<close>

text \<open>
  The receiver after a start edge at time 0 that the transport layer accepted, and the
  transmitter after it was woken at time 0 with a guard delay of one bit period.
\<close>

definition awaiting_state :: hw_state where
  "awaiting_state = snd (rxd_irq_handler 0 1 ready_state)"

definition sending_state :: hw_state where
  "sending_state = seatalk_initiate_hardware_transmitter 0 SEATALK_PORT 1 ready_state"

text \<open>The calls one expiry of a timer adds to the trace.\<close>

definition expiry_events :: "timer_id \<Rightarrow> ktime \<Rightarrow> c_int \<Rightarrow> hw_state \<Rightarrow> event list option" where
  "expiry_events tid now rc s =
     (case run_hrtimer tid now rc s of
        None \<Rightarrow> None
      | Some s' \<Rightarrow> Some (drop (length (trace s)) (trace s')))"

section \<open>Properties\<close>

subsection \<open>Evaluation lemmas\<close>

lemmas const_defs = GPIO_RXD_PIN_def GPIO_TXD_PIN_def GPIO_RX_LOW_VALUE_def
  GPIO_RX_HIGH_VALUE_def GPIO_TX_LOW_VALUE_def GPIO_TX_HIGH_VALUE_def SEATALK_PORT_def
  BIT_INTERVAL_def START_BIT_DELAY_def DEBOUNCE_NANOS_def

lemmas kernel_defs = emit_def hrtimer_init_def hrtimer_start_def hrtimer_cancel_def
  hrtimer_forward_def hrtimer_forward_now_def gpio_request_def gpio_free_def
  gpio_direction_input_def gpio_set_level_def gpio_direction_output_def gpio_set_value_def
  gpio_get_value_def

lemma ktime_set_0: "ktime_set 0 n = sint n"
  by (simp add: ktime_set_def KTIME_MAX_def NSEC_PER_SEC_def)

lemma sint_consts:
  "sint BIT_INTERVAL = 208333" "sint START_BIT_DELAY = 52083"
  "sint (BIT_INTERVAL + START_BIT_DELAY) = 260416" "sint DEBOUNCE_NANOS = 60000"
  by (simp_all add: const_defs)

lemma ready_state_eq:
  "ready_state =
     \<lparr>debouncing = 0,
      hrtimer_rxd = \<lparr>enqueued = False, expires = 0, callback = Some Receive_bit_fn\<rparr>,
      hrtimer_txd = \<lparr>enqueued = False, expires = 0, callback = Some Transmit_bit_fn\<rparr>,
      gpio_requested = {23, 24},
      gpio_level = (\<lambda>_. 0),
      trace = [Gpio_request 23, Gpio_direction_input 23, Hrtimer_init TIMER_RXD,
               Gpio_request 24, Gpio_direction_output 24 1, Gpio_set_value 24 0,
               Hrtimer_init TIMER_TXD]\<rparr>"
  by (simp add: ready_state_def seatalk_init_hardware_signal_def
      seatalk_set_hardware_bit_value_def boot_state_def const_defs kernel_defs Let_def
      fun_eq_iff insert_commute)

lemma awaiting_state_eq:
  "awaiting_state = ready_state
     \<lparr>hrtimer_rxd := \<lparr>enqueued = True, expires = 260416, callback = Some Receive_bit_fn\<rparr>,
      trace := trace ready_state @ [Local_irq_save, Seatalk_initiate_receive_character 0,
                 Hrtimer_start TIMER_RXD 260416, Local_irq_restore]\<rparr>"
  by (simp add: awaiting_state_def ready_state_eq rxd_irq_handler_def ktime_set_0 sint_consts
      kernel_defs const_defs Let_def)

lemma sending_state_eq:
  "sending_state = ready_state
     \<lparr>hrtimer_txd := \<lparr>enqueued = True, expires = 208333, callback = Some Transmit_bit_fn\<rparr>,
      trace := trace ready_state @ [Hrtimer_cancel TIMER_TXD, Hrtimer_start TIMER_TXD 208333]\<rparr>"
  by (simp add: sending_state_def ready_state_eq seatalk_initiate_hardware_transmitter_def
      ktime_set_0 kernel_defs const_defs Let_def)

text \<open>
  Forwarding a timer that is due and off the queue always moves its expiry past the
  current time.
\<close>

lemma hrtimer_forward_future:
  assumes "\<not> enqueued t" and "expires t \<le> now" and "0 < interval"
  shows "now < expires (hrtimer_forward t now interval)"
proof -
  let ?d = "now - expires t"
  have d: "0 \<le> ?d" using assms by simp
  have "?d < interval * (?d div interval + 1)"
    using assms(3) d
    by (metis add.commute div_mult_mod_eq distrib_left less_add_same_cancel2 mult.commute
        mult.right_neutral pos_mod_bound add_strict_left_mono)
  then show ?thesis
    using assms by (auto simp add: hrtimer_forward_def Let_def distrib_left)
qed

text \<open>The product \<^verbatim>\<open>BIT_INTERVAL * bit_delay\<close> is exact up to 10307 bit periods.\<close>

lemma sint_bit_delay:
  assumes "0 \<le> sint g" and "sint g \<le> 10307"
  shows "sint (BIT_INTERVAL * g) = 208333 * sint g"
proof -
  have "sint (BIT_INTERVAL * g) = signed_take_bit 31 (sint BIT_INTERVAL * sint g)"
    by (simp add: sint_word_ariths)
  also have "\<dots> = signed_take_bit 31 (208333 * sint g)"
    by (simp add: sint_consts)
  also have "\<dots> = 208333 * sint g"
    using assms by (intro signed_take_bit_int_eq_self) auto
  finally show ?thesis .
qed

subsection \<open>Timing constants\<close>

text \<open>
  Claim C6. At 4800 baud, in whole nanoseconds: the bit period is
  \<open>10^9 div 4800 = 208333\<close>, the start-bit offset a quarter of it, \<open>52083\<close>, and a start
  edge at time 0 that the transport layer accepts queues the receive timer for
  \<open>208333 + 52083 = 260416\<close>.
\<close>

theorem timing_constants_4800:
  "sint BIT_INTERVAL = 1000000000 div 4800 \<and> sint BIT_INTERVAL = 208333
   \<and> sint START_BIT_DELAY = sint BIT_INTERVAL div 4 \<and> sint START_BIT_DELAY = 52083
   \<and> ktime_set 0 (BIT_INTERVAL + START_BIT_DELAY) = 260416
   \<and> hrtimer_rxd (snd (rxd_irq_handler 0 1 ready_state))
       = \<lparr>enqueued = True, expires = 260416, callback = Some Receive_bit_fn\<rparr>"
  by (simp add: ready_state_eq rxd_irq_handler_def ktime_set_0 sint_consts kernel_defs Let_def)

subsection \<open>The line interface\<close>

text \<open>
  Claim C9. Writing and reading use inverse mappings: for a logic value \<open>v\<close> of 0 or 1,
  the level that \<^verbatim>\<open>seatalk_set_hardware_bit_value\<close> drives on the output pin, put on
  the input pin, is read back by \<^verbatim>\<open>seatalk_get_hardware_bit_value\<close> as \<open>v\<close>.
\<close>

theorem polarity_round_trip:
  assumes "v = 0 \<or> v = 1"
  shows "seatalk_get_hardware_bit_value p
           (s'\<lparr>gpio_level := (gpio_level s')
                 (GPIO_RXD_PIN := gpio_get_value GPIO_TXD_PIN
                                    (seatalk_set_hardware_bit_value q v s))\<rparr>) = v"
  using assms
  by (auto simp add: seatalk_get_hardware_bit_value_def seatalk_set_hardware_bit_value_def
      const_defs kernel_defs)

theorem polarity_round_trip_witness:
  "((1::c_int) = 0 \<or> (1::c_int) = 1)
   \<and> seatalk_get_hardware_bit_value 0
        (boot_state\<lparr>gpio_level := (gpio_level boot_state)
              (GPIO_RXD_PIN := gpio_get_value GPIO_TXD_PIN
                                 (seatalk_set_hardware_bit_value 0 1 boot_state))\<rparr>) = 1"
  using polarity_round_trip [of 1 0 boot_state 0 boot_state] by simp

text \<open>
  Claim C10. The port argument is ignored: reading the line, writing the line and
  waking the transmitter give the same result and the same state for any two ports.
\<close>

theorem port_argument_ignored:
  "seatalk_get_hardware_bit_value p s = seatalk_get_hardware_bit_value q s
   \<and> seatalk_set_hardware_bit_value p v s = seatalk_set_hardware_bit_value q v s
   \<and> seatalk_initiate_hardware_transmitter now p d s
       = seatalk_initiate_hardware_transmitter now q d s"
  by (simp add: seatalk_get_hardware_bit_value_def seatalk_set_hardware_bit_value_def
      seatalk_initiate_hardware_transmitter_def)

subsection \<open>Initialisation\<close>

text \<open>
  Claim C8. Starting with neither pin reserved, \<^verbatim>\<open>seatalk_init_hardware_signal\<close>
  returns 0 exactly when both requests are granted, and then both pins are reserved;
  otherwise it returns -1 and the reserved pins are what they were before (the input pin,
  if it had been granted, is freed again). Neither pin is requested twice: the input pin
  is requested once, the output pin once if the input pin was granted and not at all
  otherwise.
\<close>

theorem init_hardware_signal_result:
  assumes "GPIO_RXD_PIN \<notin> gpio_requested s" and "GPIO_TXD_PIN \<notin> gpio_requested s"
  shows "(let (r, s') = seatalk_init_hardware_signal rxd_rc txd_rc s in
          (if rxd_rc = 0 \<and> txd_rc = 0
           then r = 0 \<and> gpio_requested s' = gpio_requested s \<union> {GPIO_RXD_PIN, GPIO_TXD_PIN}
           else r = - 1 \<and> gpio_requested s' = gpio_requested s)
          \<and> count_list (trace s') (Gpio_request GPIO_RXD_PIN)
              = count_list (trace s) (Gpio_request GPIO_RXD_PIN) + 1
          \<and> count_list (trace s') (Gpio_request GPIO_TXD_PIN)
              = count_list (trace s) (Gpio_request GPIO_TXD_PIN) + (if rxd_rc = 0 then 1 else 0))"
  using assms
  by (auto simp add: seatalk_init_hardware_signal_def seatalk_set_hardware_bit_value_def
      const_defs kernel_defs Let_def)

theorem init_hardware_signal_result_witness:
  "GPIO_RXD_PIN \<notin> gpio_requested boot_state \<and> GPIO_TXD_PIN \<notin> gpio_requested boot_state
   \<and> fst (seatalk_init_hardware_signal 0 (- 16) boot_state) = - 1
   \<and> gpio_requested (snd (seatalk_init_hardware_signal 0 (- 16) boot_state)) = {}"
  using init_hardware_signal_result [of boot_state 0 "- 16"]
  by (simp add: boot_state_def split_beta Let_def)

subsection \<open>Configuration\<close>

text \<open>
  Claim C7 says the bit period, the polarity and the debounce window follow runtime
  options. They do not: they are constants of the file, and no function takes a
  configuration. Under the options 9600 bits per second, no inversion and a window of
  50000 ns, the specification's formulas give values the file does not use.
\<close>

theorem options_have_no_effect:
  "sint BIT_INTERVAL \<noteq> spec_BIT_PERIOD
       \<lparr>bitRate = 9600, logicInversion = False, debounceWindowNanos = 50000\<rparr>
   \<and> sint DEBOUNCE_NANOS \<noteq> spec_DEBOUNCE_WINDOW
       \<lparr>bitRate = 9600, logicInversion = False, debounceWindowNanos = 50000\<rparr>
   \<and> seatalk_get_hardware_bit_value SEATALK_PORT boot_state
       \<noteq> spec_readBit \<lparr>bitRate = 9600, logicInversion = False, debounceWindowNanos = 50000\<rparr>
            (gpio_get_value GPIO_RXD_PIN boot_state)"
  by (simp add: sint_consts spec_BIT_PERIOD_def spec_DEBOUNCE_WINDOW_def spec_readBit_def
      seatalk_get_hardware_bit_value_def gpio_get_value_def boot_state_def const_defs)

text \<open>
  Claim C7, amended. The file fixes, at build time, the values the specification derives
  from its defaults: 4800 bits per second (a bit period of 208333 ns and a start offset
  of a quarter of it), an inverting level translator on both the read and the write
  side, and a debounce window of 60000 ns.
\<close>

theorem constants_are_the_defaults:
  "sint BIT_INTERVAL = spec_BIT_PERIOD default_config
   \<and> sint START_BIT_DELAY = spec_START_SAMPLE_OFFSET default_config
   \<and> sint DEBOUNCE_NANOS = spec_DEBOUNCE_WINDOW default_config
   \<and> seatalk_get_hardware_bit_value p s
       = spec_readBit default_config (gpio_get_value GPIO_RXD_PIN s)
   \<and> gpio_get_value GPIO_TXD_PIN (seatalk_set_hardware_bit_value p v s)
       = spec_writeBit default_config v"
  by (simp add: sint_consts spec_BIT_PERIOD_def spec_START_SAMPLE_OFFSET_def
      spec_DEBOUNCE_WINDOW_def spec_readBit_def spec_writeBit_def default_config_def
      seatalk_get_hardware_bit_value_def seatalk_set_hardware_bit_value_def
      kernel_defs const_defs)

subsection \<open>The edge interrupt\<close>

text \<open>
  Claim C4. An edge that arrives while the receiver is idle (the receive timer is not
  queued) and the debounce flag is clear queues the receive timer exactly when
  \<^verbatim>\<open>seatalk_initiate_receive_character\<close> answers true, and then for
  \<open>BIT_INTERVAL + START_BIT_DELAY\<close> after the edge. When the answer is false the timer,
  the flag, the transmit timer and the pins are as before.
\<close>

theorem start_edge_arms_iff_accepted:
  assumes "debouncing s = 0" and "\<not> enqueued (hrtimer_rxd s)"
  shows "(let s' = snd (rxd_irq_handler now rc s) in
          (enqueued (hrtimer_rxd s') \<longleftrightarrow> rc \<noteq> 0)
          \<and> (if rc \<noteq> 0
              then hrtimer_rxd s' = (hrtimer_rxd s)
                     \<lparr>enqueued := True,
                      expires := now + (sint BIT_INTERVAL + sint START_BIT_DELAY)\<rparr>
              else hrtimer_rxd s' = hrtimer_rxd s)
          \<and> debouncing s' = 0 \<and> hrtimer_txd s' = hrtimer_txd s
          \<and> gpio_level s' = gpio_level s \<and> gpio_requested s' = gpio_requested s)"
  using assms
  by (simp add: rxd_irq_handler_def ktime_set_0 sint_consts kernel_defs Let_def)

theorem start_edge_arms_iff_accepted_witness:
  "debouncing ready_state = 0 \<and> \<not> enqueued (hrtimer_rxd ready_state)
   \<and> enqueued (hrtimer_rxd (snd (rxd_irq_handler 0 1 ready_state)))
   \<and> expires (hrtimer_rxd (snd (rxd_irq_handler 0 1 ready_state))) = 260416
   \<and> \<not> enqueued (hrtimer_rxd (snd (rxd_irq_handler 0 0 ready_state)))"
  using start_edge_arms_iff_accepted [of ready_state 0 1]
    start_edge_arms_iff_accepted [of ready_state 0 0]
  by (simp add: ready_state_eq sint_consts Let_def)




subsection \<open>The receive timer\<close>

lemma receive_bit_calls_append:
  "receive_bit_calls (xs @ ys) = receive_bit_calls xs @ receive_bit_calls ys"
  by (simp add: receive_bit_calls_def)

text \<open>An expiry while more bits are expected: one call of the intake, timer queued again.\<close>

lemma receive_expiry_more:
  assumes "debouncing s = 0" and "enqueued (hrtimer_rxd s)"
    and "callback (hrtimer_rxd s) = Some Receive_bit_fn" and "0 \<le> late" and "rc \<noteq> 0"
  shows "\<exists>s'. run_hrtimer TIMER_RXD (expires (hrtimer_rxd s) + late) rc s = Some s'
          \<and> debouncing s' = 0 \<and> enqueued (hrtimer_rxd s')
          \<and> callback (hrtimer_rxd s') = Some Receive_bit_fn
          \<and> trace s' = trace s @ [Hrtimer_forward_now TIMER_RXD 208333,
                                   Seatalk_receive_bit SEATALK_PORT]"
  using assms
  by (simp add: run_hrtimer_def run_callback_def receive_bit_def ktime_set_0 sint_consts
      emit_def hrtimer_forward_now_def hrtimer_forward_def Let_def)

text \<open>
  The expiry that completes the byte: one call of the intake, the flag set, the timer
  queued again. The second \<^verbatim>\<open>hrtimer_forward_now\<close> finds the expiry already in the
  future and changes nothing: the timer is left where the forward by \<open>BIT_INTERVAL\<close>
  put it.
\<close>

lemma receive_expiry_last:
  assumes "debouncing s = 0" and "enqueued (hrtimer_rxd s)"
    and "callback (hrtimer_rxd s) = Some Receive_bit_fn" and "0 \<le> late"
  shows "\<exists>s'. run_hrtimer TIMER_RXD (expires (hrtimer_rxd s) + late) 0 s = Some s'
          \<and> debouncing s' = 1
          \<and> hrtimer_rxd s' = hrtimer_forward ((hrtimer_rxd s)\<lparr>enqueued := False\<rparr>)
                                (expires (hrtimer_rxd s) + late) 208333 \<lparr>enqueued := True\<rparr>
          \<and> trace s' = trace s @ [Hrtimer_forward_now TIMER_RXD 208333,
                                   Seatalk_receive_bit SEATALK_PORT,
                                   Hrtimer_forward_now TIMER_RXD 60000]"
proof -
  define now where "now = expires (hrtimer_rxd s) + late"
  define t where "t = (hrtimer_rxd s)\<lparr>enqueued := False\<rparr>"
  have t: "\<not> enqueued t" "expires t \<le> now"
    using assms by (simp_all add: t_def now_def)
  have fut: "now < expires (hrtimer_forward t now 208333)"
    using t by (intro hrtimer_forward_future) simp_all
  have noop: "hrtimer_forward (hrtimer_forward t now 208333) now 60000
                = hrtimer_forward t now 208333"
    using fut by (simp add: hrtimer_forward_def [of "hrtimer_forward t now 208333"] Let_def)
  have "expires (hrtimer_rxd s) \<le> now" using assms by (simp add: now_def)
  then show ?thesis
    unfolding now_def [symmetric]
    using assms(1-3) noop
    by (simp add: run_hrtimer_def run_callback_def receive_bit_def ktime_set_0 sint_consts
        emit_def hrtimer_forward_now_def Let_def t_def)
qed

text \<open>The expiry that ends the debounce: the flag cleared, the timer left off the queue.\<close>

lemma receive_expiry_debounced:
  assumes "debouncing s \<noteq> 0" and "enqueued (hrtimer_rxd s)"
    and "callback (hrtimer_rxd s) = Some Receive_bit_fn" and "0 \<le> late"
  shows "run_hrtimer TIMER_RXD (expires (hrtimer_rxd s) + late) rc s
           = Some (s\<lparr>debouncing := 0, hrtimer_rxd := (hrtimer_rxd s)\<lparr>enqueued := False\<rparr>\<rparr>)"
  using assms
  by (simp add: run_hrtimer_def run_callback_def receive_bit_def Let_def)

text \<open>
  A byte of \<open>N = length fs + 1\<close> bits: expiries answered "more" and a last one answered
  "complete", each run by the kernel on time or late, make exactly \<open>N\<close> calls of
  \<^verbatim>\<open>seatalk_receive_bit\<close> and end with the debounce flag set and the timer queued.
\<close>

lemma receive_byte_run:
  assumes "debouncing s = 0" and "enqueued (hrtimer_rxd s)"
    and "callback (hrtimer_rxd s) = Some Receive_bit_fn"
    and "\<forall>f \<in> set fs. 0 \<le> fst f \<and> snd f \<noteq> 0" and "0 \<le> late"
  shows "\<exists>s'. rxd_expiries (fs @ [(late, 0)]) s = Some s'
          \<and> receive_bit_calls (trace s')
              = receive_bit_calls (trace s)
                @ replicate (Suc (length fs)) (Seatalk_receive_bit SEATALK_PORT)
          \<and> debouncing s' = 1 \<and> enqueued (hrtimer_rxd s')
          \<and> callback (hrtimer_rxd s') = Some Receive_bit_fn"
  using assms
proof (induction fs arbitrary: s)
  case Nil
  from receive_expiry_last [OF Nil.prems(1-3) Nil.prems(5)]
  obtain s' where s': "run_hrtimer TIMER_RXD (expires (hrtimer_rxd s) + late) 0 s = Some s'"
    "debouncing s' = 1"
    "hrtimer_rxd s' = hrtimer_forward ((hrtimer_rxd s)\<lparr>enqueued := False\<rparr>)
                        (expires (hrtimer_rxd s) + late) 208333 \<lparr>enqueued := True\<rparr>"
    "trace s' = trace s @ [Hrtimer_forward_now TIMER_RXD 208333,
                           Seatalk_receive_bit SEATALK_PORT,
                           Hrtimer_forward_now TIMER_RXD 60000]"
    by blast
  have "callback (hrtimer_rxd s') = Some Receive_bit_fn"
    using Nil.prems(3) by (simp add: s'(3) hrtimer_forward_def Let_def)
  then show ?case
    using s' by (simp add: receive_bit_calls_def SEATALK_PORT_def)
next
  case (Cons f fs)
  obtain l rc where f: "f = (l, rc)" by (cases f)
  have l: "0 \<le> l" and rc: "rc \<noteq> 0" using Cons.prems(4) by (simp_all add: f)
  from receive_expiry_more [OF Cons.prems(1-3) l rc]
  obtain s1 where s1: "run_hrtimer TIMER_RXD (expires (hrtimer_rxd s) + l) rc s = Some s1"
    "debouncing s1 = 0" "enqueued (hrtimer_rxd s1)"
    "callback (hrtimer_rxd s1) = Some Receive_bit_fn"
    "trace s1 = trace s @ [Hrtimer_forward_now TIMER_RXD 208333,
                           Seatalk_receive_bit SEATALK_PORT]"
    by blast
  have rest: "\<forall>f \<in> set fs. 0 \<le> fst f \<and> snd f \<noteq> 0" using Cons.prems(4) by simp
  from Cons.IH [OF s1(2-4) rest Cons.prems(5)]
  obtain s' where s': "rxd_expiries (fs @ [(late, 0)]) s1 = Some s'"
    "receive_bit_calls (trace s')
       = receive_bit_calls (trace s1)
         @ replicate (Suc (length fs)) (Seatalk_receive_bit SEATALK_PORT)"
    "debouncing s' = 1" "enqueued (hrtimer_rxd s')"
    "callback (hrtimer_rxd s') = Some Receive_bit_fn"
    by blast
  have "receive_bit_calls (trace s1)
          = receive_bit_calls (trace s) @ [Seatalk_receive_bit SEATALK_PORT]"
    by (simp add: s1(5) receive_bit_calls_def SEATALK_PORT_def)
  then show ?case
    using s1(1) s' by (simp add: f replicate_app_Cons_same)
qed

text \<open>
  Claim C1, at \<open>N = 1\<close>: a start edge at time 0 and one expiry, exactly on time at
  260416, that the transport layer answers "complete". The intake is called once, the
  debounce flag is set and the timer is queued again, as the claim says. But the timer
  is not rearmed for \<open>DEBOUNCE_NANOS\<close>: the callback had already forwarded the expiry by
  \<open>BIT_INTERVAL\<close>, so the forward by \<open>DEBOUNCE_NANOS\<close> is issued and changes nothing.
  The debounce ends at \<open>260416 + 208333\<close>, not at \<open>260416 + 60000\<close>.
\<close>

theorem debounce_rearm_evaluated:
  "expiry_events TIMER_RXD 260416 0 awaiting_state
     = Some [Hrtimer_forward_now TIMER_RXD 208333, Seatalk_receive_bit SEATALK_PORT,
             Hrtimer_forward_now TIMER_RXD 60000]
   \<and> map_option debouncing (run_hrtimer TIMER_RXD 260416 0 awaiting_state) = Some 1
   \<and> map_option hrtimer_rxd (run_hrtimer TIMER_RXD 260416 0 awaiting_state)
     = Some \<lparr>enqueued = True, expires = 260416 + 208333, callback = Some Receive_bit_fn\<rparr>
   \<and> map_option hrtimer_rxd (run_hrtimer TIMER_RXD 260416 0 awaiting_state)
     \<noteq> Some \<lparr>enqueued = True, expires = 260416 + 60000, callback = Some Receive_bit_fn\<rparr>"
  by (simp add: expiry_events_def run_hrtimer_def run_callback_def receive_bit_def
      awaiting_state_eq ready_state_eq ktime_set_0 sint_consts kernel_defs SEATALK_PORT_def Let_def)

subsection \<open>The transmit timer\<close>

text \<open>
  Claim C3 says the callback asks whether the byte is finished before it rearms, and
  cancels the timer when it is. The callback does neither: at the expiry that sends
  the last bit it first forwards the expiry, then asks; \<^verbatim>\<open>hrtimer_cancel\<close> is not
  called. The timer is left off the queue with its expiry moved to 416666.
\<close>

theorem last_bit_evaluated:
  "expiry_events TIMER_TXD 208333 0 sending_state
     = Some [Hrtimer_forward_now TIMER_TXD 208333, Seatalk_transmit_bit SEATALK_PORT]
   \<and> map_option hrtimer_txd (run_hrtimer TIMER_TXD 208333 0 sending_state)
     = Some \<lparr>enqueued = False, expires = 416666, callback = Some Transmit_bit_fn\<rparr>"
  by (simp add: expiry_events_def run_hrtimer_def run_callback_def transmit_bit_def
      sending_state_eq ready_state_eq ktime_set_0 sint_consts kernel_defs SEATALK_PORT_def Let_def)

text \<open>
  Claim C3, amended. At each expiry of the transmit timer the callback first forwards
  the expiry by \<open>BIT_INTERVAL\<close> (to a time after the current one), then asks
  \<^verbatim>\<open>seatalk_transmit_bit\<close>. The timer is queued again exactly when the answer is
  true. When the byte is finished the callback returns \<^verbatim>\<open>HRTIMER_NORESTART\<close>, so
  the timer stays off the queue and does not expire again, whatever the time.
\<close>

theorem transmit_expiry:
  assumes "enqueued (hrtimer_txd s)" and "expires (hrtimer_txd s) \<le> now"
    and "callback (hrtimer_txd s) = Some Transmit_bit_fn"
  shows "\<exists>s'. run_hrtimer TIMER_TXD now rc s = Some s'
          \<and> trace s' = trace s @ [Hrtimer_forward_now TIMER_TXD (sint BIT_INTERVAL),
                                   Seatalk_transmit_bit SEATALK_PORT]
          \<and> (enqueued (hrtimer_txd s') \<longleftrightarrow> rc \<noteq> 0)
          \<and> now < expires (hrtimer_txd s')
          \<and> (if rc = 0 then run_hrtimer TIMER_TXD now' rc' s' = None
              else expires (hrtimer_txd s') \<le> now + sint BIT_INTERVAL)"
proof -
  define t where "t = (hrtimer_txd s)\<lparr>enqueued := False\<rparr>"
  have t: "\<not> enqueued t" "expires t \<le> now" "callback t = Some Transmit_bit_fn"
    using assms by (simp_all add: t_def)
  have fut: "now < expires (hrtimer_forward t now 208333)"
    using t by (intro hrtimer_forward_future) simp_all
  have le: "expires (hrtimer_forward t now 208333) \<le> now + 208333"
    using t by (auto simp add: hrtimer_forward_def Let_def)
  have cb: "callback (hrtimer_forward t now 208333) = Some Transmit_bit_fn"
    using t by (simp add: hrtimer_forward_def Let_def)
  have enq: "\<not> enqueued (hrtimer_forward t now 208333)"
    using t by (simp add: hrtimer_forward_def Let_def)
  show ?thesis
    using assms fut le cb enq
    by (simp add: run_hrtimer_def run_callback_def transmit_bit_def ktime_set_0 sint_consts
        emit_def hrtimer_forward_now_def Let_def t_def)
qed

theorem transmit_expiry_witness:
  "enqueued (hrtimer_txd sending_state) \<and> expires (hrtimer_txd sending_state) \<le> 208333
   \<and> callback (hrtimer_txd sending_state) = Some Transmit_bit_fn
   \<and> (\<exists>s'. run_hrtimer TIMER_TXD 208333 0 sending_state = Some s'
         \<and> \<not> enqueued (hrtimer_txd s')
         \<and> run_hrtimer TIMER_TXD 416666 1 s' = None)"
proof -
  have h1: "enqueued (hrtimer_txd sending_state)"
    and h2: "expires (hrtimer_txd sending_state) \<le> 208333"
    and h3: "callback (hrtimer_txd sending_state) = Some Transmit_bit_fn"
    by (simp_all add: sending_state_eq ready_state_eq)
  from transmit_expiry [OF h1 h2 h3, of 0 416666 1]
  obtain s' where "run_hrtimer TIMER_TXD 208333 0 sending_state = Some s'"
    and "\<not> enqueued (hrtimer_txd s')"
    and "run_hrtimer TIMER_TXD 416666 1 s' = None"
    by auto
  with h1 h2 h3 show ?thesis by blast
qed

text \<open>
  Claim C5 says the transmitter is armed for \<open>BIT_PERIOD * g\<close> for every guard delay
  \<open>g\<close>. The product is computed in 32-bit \<^verbatim>\<open>int\<close>s: a guard delay of 20616 bit
  periods (about 4.3 s) arms the timer for 25832 ns.
\<close>

theorem initiate_transmitter_overflow:
  "expires (hrtimer_txd (seatalk_initiate_hardware_transmitter 0 SEATALK_PORT 20616 ready_state))
     = 25832
   \<and> expires (hrtimer_txd (seatalk_initiate_hardware_transmitter 0 SEATALK_PORT 20616 ready_state))
     \<noteq> 0 + sint BIT_INTERVAL * 20616"
  by (simp add: seatalk_initiate_hardware_transmitter_def ready_state_eq ktime_set_0
      const_defs kernel_defs Let_def)

text \<open>
  Claim C5, amended. For every guard delay \<open>g\<close> from 0 to 10307 bit periods, waking the
  transmitter, at any time and in any state, first cancels the transmit timer and then
  starts it for \<open>BIT_INTERVAL * g\<close>: whatever the timer's schedule was, it is now queued
  to expire \<open>BIT_INTERVAL * g\<close> after the call, and nothing else of the state changes.
\<close>

theorem initiate_transmitter_in_range:
  assumes "0 \<le> sint g" and "sint g \<le> 10307"
  shows "(let s' = seatalk_initiate_hardware_transmitter now p g s in
          trace s' = trace s @ [Hrtimer_cancel TIMER_TXD,
                                Hrtimer_start TIMER_TXD (sint BIT_INTERVAL * sint g)]
          \<and> hrtimer_txd s' = (hrtimer_txd s)
               \<lparr>enqueued := True, expires := now + sint BIT_INTERVAL * sint g\<rparr>
          \<and> hrtimer_rxd s' = hrtimer_rxd s \<and> debouncing s' = debouncing s
          \<and> gpio_level s' = gpio_level s \<and> gpio_requested s' = gpio_requested s)"
  using sint_bit_delay [OF assms] assms(1)
  by (simp add: seatalk_initiate_hardware_transmitter_def ktime_set_0 sint_consts
      kernel_defs Let_def)

theorem initiate_transmitter_in_range_witness:
  "0 \<le> sint (3 :: c_int) \<and> sint (3 :: c_int) \<le> 10307
   \<and> hrtimer_txd (seatalk_initiate_hardware_transmitter 1000 0 3
        (seatalk_initiate_hardware_transmitter 0 0 10 ready_state))
      = \<lparr>enqueued = True, expires = 1000 + 624999, callback = Some Transmit_bit_fn\<rparr>"
  using initiate_transmitter_in_range
          [of 3 1000 0 "seatalk_initiate_hardware_transmitter 0 0 10 ready_state"]
        initiate_transmitter_in_range [of 10 0 0 ready_state]
  by (simp add: ready_state_eq sint_consts Let_def)

end
